theory Spec2Isabelle
  imports Main "HOL-Library.Word"
begin

unbundle bit_operations_syntax

section \<open>The Raft write-ahead log of \<open>raftwal/storage.go\<close>\<close>

text \<open>
  A shallow embedding of the file-based write-ahead log: the 32-byte index slot and its
  codec, the entry files and the entry log built from them, the meta file, and the
  \<open>DiskStorage\<close> facade. Go's \<open>uint64\<close> is \<open>64 word\<close> (arithmetic wraps), Go's
  \<open>int\<close> is \<open>int\<close> with the conversion from \<open>uint64\<close> written out as \<open>sint\<close>,
  a byte is \<open>8 word\<close>. A function that can panic or return an error returns
  \<open>failure + 'a\<close>, with \<open>Inl\<close> for the failure.
\<close>

type_synonym u64 = "64 word"
type_synonym byte = "8 word"

subsection \<open>Constants\<close>

definition maxNumEntries :: int where
  [simp]: "maxNumEntries = 30000"

definition entrySize :: int where
  [simp]: "entrySize = 32"

definition entryFileOffset :: int where
  [simp]: "entryFileOffset = 1048576"

definition entryFileSize :: int where
  [simp]: "entryFileSize = 4 * entryFileOffset"

definition entryFileMaxSize :: int where
  [simp]: "entryFileMaxSize = 1073741824"

subsection \<open>Panics and errors\<close>

text \<open>
  The first group are Go run-time panics and failed assertions, the second group are the
  errors the functions return as values.
\<close>

datatype failure =
    PanicIndexOutOfRange
  | PanicSliceBounds
  | PanicNilPointer
  | PanicAssert
  | PanicOutOfSpace
  | ErrCompacted
  | ErrUnavailable
  | ErrInvalidByteArraySize
  | ErrLowLessThanFirst
  | ErrUninitializedBuffer
  | ErrBufferRange
  | ErrTooManyEntries
  | ErrParseUint
  | ErrKeyNotFound
  | ErrCannotRead

fun is_panic :: "failure \<Rightarrow> bool" where
  "is_panic PanicIndexOutOfRange = True"
| "is_panic PanicSliceBounds = True"
| "is_panic PanicNilPointer = True"
| "is_panic PanicAssert = True"
| "is_panic PanicOutOfSpace = True"
| "is_panic _ = False"

subsection \<open>The index slot and its codec\<close>

text \<open>
  \<open>binary.BigEndian.PutUint64\<close> and \<open>binary.BigEndian.Uint64\<close> of Go's standard
  library, byte for byte: \<open>b[0] = byte(v >> 56)\<close>, ..., \<open>b[7] = byte(v)\<close>, and
  \<open>uint64(b[7]) | uint64(b[6])<<8 | ... | uint64(b[0])<<56\<close>. \<open>Uint64\<close> reads the
  first eight bytes of its argument; every caller below hands it at least eight.
\<close>

definition PutUint64 :: "u64 \<Rightarrow> byte list" where
  "PutUint64 v =
     [ucast (drop_bit 56 v), ucast (drop_bit 48 v), ucast (drop_bit 40 v),
      ucast (drop_bit 32 v), ucast (drop_bit 24 v), ucast (drop_bit 16 v),
      ucast (drop_bit 8 v), ucast v]"

definition Uint64 :: "byte list \<Rightarrow> u64" where
  "Uint64 b =
     ucast (b ! 7) OR push_bit 8 (ucast (b ! 6)) OR push_bit 16 (ucast (b ! 5)) OR
     push_bit 24 (ucast (b ! 4)) OR push_bit 32 (ucast (b ! 3)) OR
     push_bit 40 (ucast (b ! 2)) OR push_bit 48 (ucast (b ! 1)) OR
     push_bit 56 (ucast (b ! 0))"

text \<open>
  The struct \<open>entry\<close>. \<open>raftpb.EntryType\<close> is an \<open>int32\<close>; \<open>uint64(e.Type)\<close>
  sign-extends it (\<open>scast\<close>) and \<open>raftpb.EntryType(u)\<close> keeps the low 32 bits
  (\<open>ucast\<close>).
\<close>

record entry =
  Term :: u64
  Index :: u64
  DataOffset :: u64
  Type :: "32 word"

text \<open>\<open>(e *entry) Bytes()\<close>: \<open>None\<close> is the nil receiver.\<close>

fun entry_Bytes :: "entry option \<Rightarrow> byte list" where
  "entry_Bytes None = []"
| "entry_Bytes (Some e) =
     PutUint64 (Term e) @ PutUint64 (Index e) @ PutUint64 (DataOffset e) @
     PutUint64 (scast (Type e))"

definition entryFromBytes :: "byte list \<Rightarrow> failure + entry" where
  "entryFromBytes b =
     (if length b = 0 \<or> int (length b) < entrySize then Inl ErrInvalidByteArraySize
      else Inr \<lparr>Term = Uint64 b, Index = Uint64 (drop 8 b),
                DataOffset = Uint64 (drop 16 b), Type = ucast (Uint64 (drop 24 b))\<rparr>)"

subsection \<open>Library functions the log calls\<close>

text \<open>
  \<open>sort.Search\<close> of Go's standard library: the binary search
  \<open>i, j := 0, n; for i < j { h := int(uint(i+j) >> 1); if !f(h) { i = h + 1 } else { j = h } }\<close>.
\<close>

function sort_Search_loop :: "(int \<Rightarrow> bool) \<Rightarrow> int \<Rightarrow> int \<Rightarrow> int" where
  "sort_Search_loop f i j =
     (if i < j then
        (let h = (i + j) div 2 in
         if \<not> f h then sort_Search_loop f (h + 1) j else sort_Search_loop f i h)
      else i)"
  by pat_completeness auto
termination
  by (relation "measure (\<lambda>(f, i, j). nat (j - i))") auto

definition sort_Search :: "int \<Rightarrow> (int \<Rightarrow> bool) \<Rightarrow> int" where
  "sort_Search n f = sort_Search_loop f 0 n"

text \<open>
  \<open>fmt.Sprintf("%d", n)\<close> for an unsigned number, \<open>strings.HasSuffix\<close>,
  \<open>filepath.Join\<close> of a clean directory name and a file name, \<open>strings.Split(s, "")\<close>
  (an empty separator splits after every character) and \<open>strconv.ParseUint(s, 10, 32)\<close>.
\<close>

definition digit_char :: "nat \<Rightarrow> char" where
  "digit_char n = ''0123456789'' ! n"

function Sprintf_d :: "nat \<Rightarrow> string" where
  "Sprintf_d n =
     (if n < 10 then [digit_char n] else Sprintf_d (n div 10) @ [digit_char (n mod 10)])"
  by pat_completeness auto
termination
  by (relation "measure (\<lambda>n. n)") auto

definition strings_HasSuffix :: "string \<Rightarrow> string \<Rightarrow> bool" where
  "strings_HasSuffix s suffix =
     (length suffix \<le> length s \<and> drop (length s - length suffix) s = suffix)"

definition filepath_Join :: "string \<Rightarrow> string \<Rightarrow> string" where
  "filepath_Join d f = (if d = [] then f else if f = [] then d else d @ ''/'' @ f)"

definition strings_Split_empty_sep :: "string \<Rightarrow> string list" where
  "strings_Split_empty_sep s = map (\<lambda>c. [c]) s"

definition is_digit :: "char \<Rightarrow> bool" where
  "is_digit c = (c \<in> set ''0123456789'')"

definition digit_value :: "char \<Rightarrow> nat" where
  "digit_value c = of_char c - 48"

definition strconv_ParseUint_10_32 :: "string \<Rightarrow> failure + u64" where
  "strconv_ParseUint_10_32 s =
     (if s = [] \<or> \<not> list_all is_digit s then Inl ErrParseUint
      else (let v = foldl (\<lambda>acc c. 10 * acc + digit_value c) 0 s in
            if v < 2 ^ 32 then Inr (of_nat v) else Inl ErrParseUint))"

text \<open>
  Go's \<open>int\<close> is 64 bits wide: \<open>int64\<close> wraps a mathematical integer into its range;
  the conversion \<open>int(d)\<close> of a \<open>uint64\<close> is \<open>int64 (uint d)\<close>.
\<close>

definition int64 :: "int \<Rightarrow> int" where
  "int64 x = (x + 9223372036854775808) mod 18446744073709551616 - 9223372036854775808"

subsection \<open>The mapped buffer\<close>

text \<open>
  Modelled from the spec: the type \<open>z.Buffer\<close> of the ristretto library is not part of
  the repository; section 4.1 of the specification (MmapRegion) gives its contract: a file
  of an initial size mapped up to a maximum size, bounded reads and writes, an append
  position, and a write beyond the maximum that fails. \<open>buf\<close> are the mapped bytes,
  \<open>bcap\<close> the size of the mapping and \<open>boffset\<close> the position of the next payload
  (\<open>Len()\<close>). \<open>NewMmapFile\<close> is taken on a path that does not exist yet, so the file
  is zero-filled. A slice obtained from the buffer aliases its bytes: \<open>copy_into\<close> is
  Go's \<open>copy(dst, src)\<close> through such a slice that starts at byte \<open>off\<close> and is at
  least as long as \<open>src\<close>.
\<close>

record buffer =
  buf :: "nat \<Rightarrow> byte"
  bcap :: int
  boffset :: int

definition NewMmapFile :: "int \<Rightarrow> int \<Rightarrow> int \<Rightarrow> buffer" where
  "NewMmapFile sz maxSz offset = \<lparr>buf = (\<lambda>_. 0), bcap = maxSz, boffset = offset\<rparr>"

definition copy_into :: "(nat \<Rightarrow> byte) \<Rightarrow> nat \<Rightarrow> byte list \<Rightarrow> (nat \<Rightarrow> byte)" where
  "copy_into m off bs = (\<lambda>i. if off \<le> i \<and> i < off + length bs then bs ! (i - off) else m i)"

definition zero_range :: "(nat \<Rightarrow> byte) \<Rightarrow> nat \<Rightarrow> nat \<Rightarrow> (nat \<Rightarrow> byte)" where
  "zero_range m lo hi = (\<lambda>i. if lo \<le> i \<and> i < hi then 0 else m i)"

definition slice_mem :: "(nat \<Rightarrow> byte) \<Rightarrow> int \<Rightarrow> int \<Rightarrow> int \<Rightarrow> failure + byte list" where
  "slice_mem m c lo hi =
     (if 0 \<le> lo \<and> lo \<le> hi \<and> hi \<le> c then Inr (map m [nat lo..<nat hi])
      else Inl PanicSliceBounds)"

definition Buffer_ReadAt :: "buffer \<Rightarrow> int \<Rightarrow> int \<Rightarrow> failure + byte list" where
  "Buffer_ReadAt b n off =
     (if 0 \<le> off \<and> off + n \<le> bcap b then Inr (map (buf b) [nat off..<nat (off + n)])
      else Inl ErrBufferRange)"

definition Buffer_First :: "buffer \<Rightarrow> int \<Rightarrow> failure + byte list" where
  "Buffer_First b n = Buffer_ReadAt b n 0"

definition Buffer_SliceAllocateOffset :: "buffer \<Rightarrow> int \<Rightarrow> failure + (buffer \<times> int)" where
  "Buffer_SliceAllocateOffset b n =
     (if boffset b + n \<le> bcap b then Inr (b\<lparr>boffset := boffset b + n\<rparr>, boffset b)
      else Inl PanicOutOfSpace)"

definition Buffer_Len :: "buffer \<Rightarrow> int" where
  "Buffer_Len b = boffset b"

subsection \<open>Entry files\<close>

text \<open>
  The field \<open>mmap []byte\<close> of an \<open>entryFile\<close> is a view of mapped memory. \<open>NilMap\<close> is
  the nil slice (\<open>rotate\<close> builds its \<open>entryFile\<close> without the field), \<open>CurrentMap\<close>
  is \<open>buf.BytesFromStart()\<close> of the log's current buffer, which shares the buffer's
  bytes, and \<open>FileMap m\<close> is a mapping of its own with the bytes \<open>m\<close>. A mapping is
  \<open>entryFileMaxSize\<close> bytes long.
\<close>

datatype mmap = NilMap | CurrentMap | FileMap "nat \<Rightarrow> byte"

record entryFile =
  firstIndex :: u64
  path :: string
  mmap :: mmap

fun mmap_bytes :: "buffer option \<Rightarrow> mmap \<Rightarrow> (nat \<Rightarrow> byte)" where
  "mmap_bytes cur NilMap = (\<lambda>_. 0)"
| "mmap_bytes None CurrentMap = (\<lambda>_. 0)"
| "mmap_bytes (Some b) CurrentMap = buf b"
| "mmap_bytes cur (FileMap m) = m"

fun mmap_cap :: "buffer option \<Rightarrow> mmap \<Rightarrow> int" where
  "mmap_cap cur NilMap = 0"
| "mmap_cap None CurrentMap = 0"
| "mmap_cap (Some b) CurrentMap = bcap b"
| "mmap_cap cur (FileMap m) = entryFileMaxSize"

definition slice_mmap :: "buffer option \<Rightarrow> mmap \<Rightarrow> int \<Rightarrow> int \<Rightarrow> failure + byte list" where
  "slice_mmap cur mm lo hi = slice_mem (mmap_bytes cur mm) (mmap_cap cur mm) lo hi"

text \<open>
  \<open>(ef *entryFile) getEntry(idx int)\<close>: \<open>offset := idx * entrySize\<close>, then the slice
  \<open>ef.mmap[offset : offset+entrySize]\<close>, which panics out of bounds. The first argument
  is the log's current buffer, which a \<open>CurrentMap\<close> reads.
\<close>

definition entryFile_getEntry :: "buffer option \<Rightarrow> entryFile \<Rightarrow> int \<Rightarrow> failure + entry" where
  "entryFile_getEntry cur ef idx =
     (let offset = int64 (idx * entrySize) in
      case slice_mmap cur (mmap ef) offset (int64 (offset + entrySize)) of
        Inl p \<Rightarrow> Inl p
      | Inr b \<Rightarrow> entryFromBytes b)"

text \<open>
  \<open>getEntryFile(path)\<close>, which the directory scan calls for every file it finds: it
  maps the file and takes the file's first index from the index of the entry at slot 0
  (\<open>entryFromBytes(ef.mmap)\<close>, \<open>ef.firstIndex = e.Index\<close>). The file system is not
  modelled: the second argument are the bytes of the file at \<open>path\<close>.
\<close>

definition getEntryFile :: "string \<Rightarrow> (nat \<Rightarrow> byte) \<Rightarrow> failure + entryFile" where
  "getEntryFile p m =
     (case entryFromBytes (map m [0..<nat entryFileMaxSize]) of
        Inl err \<Rightarrow> Inl err
      | Inr e \<Rightarrow> Inr \<lparr>firstIndex = Index e, path = p, mmap = FileMap m\<rparr>)"

subsection \<open>The entry log\<close>

record entryLog =
  files :: "entryFile list"
  currentFid :: u64
  current :: "buffer option"
  entryIndex :: int
  lastIndex :: u64
  dir :: string

text \<open>\<open>l.files[i]\<close> for an \<open>int\<close> index: out of range it panics.\<close>

definition files_at :: "entryFile list \<Rightarrow> int \<Rightarrow> failure + entryFile" where
  "files_at fs i =
     (if 0 \<le> i \<and> i < int (length fs) then Inr (fs ! nat i) else Inl PanicIndexOutOfRange)"

definition lastFile :: "entryLog \<Rightarrow> failure + entryFile" where
  "lastFile l = files_at (files l) (int (length (files l)) - 1)"

text \<open>\<open>(l *entryLog) getEntry(n int)\<close>: the n-th slot of the last file.\<close>

definition entryLog_getEntry :: "entryLog \<Rightarrow> int \<Rightarrow> failure + entry" where
  "entryLog_getEntry l n =
     (if n \<ge> maxNumEntries then Inl ErrTooManyEntries
      else (let start = int64 (n * entrySize) in
            case lastFile l of
              Inl p \<Rightarrow> Inl p
            | Inr f \<Rightarrow>
                (case slice_mmap (current l) (mmap f) start (int64 (start + entrySize)) of
                   Inl p \<Rightarrow> Inl p
                 | Inr b \<Rightarrow> entryFromBytes b)))"

text \<open>\<open>firstEmpty\<close>: the loop \<open>for i := 0; i < maxNumEntries; i++\<close>, from \<open>i\<close> on.\<close>

function firstEmpty_from :: "entryLog \<Rightarrow> int \<Rightarrow> failure + int" where
  "firstEmpty_from l i =
     (if i < maxNumEntries then
        (case entryLog_getEntry l i of
           Inl err \<Rightarrow> Inl err
         | Inr e \<Rightarrow> if Index e = 0 then Inr i else firstEmpty_from l (i + 1))
      else Inr maxNumEntries)"
  by pat_completeness auto
termination
  by (relation "measure (\<lambda>(l, i). nat (maxNumEntries - i))") auto

definition firstEmpty :: "entryLog \<Rightarrow> failure + int" where
  "firstEmpty l = firstEmpty_from l 0"

definition zeroOut :: "entryLog \<Rightarrow> int \<Rightarrow> failure + entryLog" where
  "zeroOut l from =
     (if from \<ge> maxNumEntries then Inr l
      else case current l of
        None \<Rightarrow> Inl ErrUninitializedBuffer
      | Some b \<Rightarrow>
          (case Buffer_First b (entrySize * maxNumEntries) of
             Inl err \<Rightarrow> Inl err
           | Inr _ \<Rightarrow>
               if from < 0 then Inl PanicSliceBounds
               else Inr (l\<lparr>current := Some (b\<lparr>buf :=
                      zero_range (buf b) (nat (from * entrySize))
                        (nat (entrySize * maxNumEntries))\<rparr>)\<rparr>)))"

text \<open>
  \<open>rotate\<close>. The new \<open>entryFile\<close> has the path and the first index only, its \<open>mmap\<close>
  is nil. \<open>l.current\<close> becomes the new buffer: a file that viewed the old buffer
  (\<open>CurrentMap\<close>) still views those bytes, which \<open>keep_view\<close> records.
\<close>

definition keep_view :: "buffer option \<Rightarrow> entryFile \<Rightarrow> entryFile" where
  "keep_view cur ef =
     (case mmap ef of
        CurrentMap \<Rightarrow> ef\<lparr>mmap := (case cur of None \<Rightarrow> NilMap | Some b \<Rightarrow> FileMap (buf b))\<rparr>
      | _ \<Rightarrow> ef)"

definition rotate :: "entryLog \<Rightarrow> u64 \<Rightarrow> failure + entryLog" where
  "rotate l fi =
     (let p = filepath_Join (dir l) (Sprintf_d (unat fi));
          b = NewMmapFile entryFileSize entryFileMaxSize entryFileOffset
      in zeroOut
           (l\<lparr>current := Some b, entryIndex := 0,
              files := map (keep_view (current l)) (files l) @
                       [\<lparr>firstIndex = fi, path = p, mmap = NilMap\<rparr>]\<rparr>)
           0)"

definition numEntries :: "entryLog \<Rightarrow> int" where
  "numEntries l =
     (if length (files l) = 0 then 0
      else (int (length (files l)) - 1) * maxNumEntries + entryIndex l)"

text \<open>
  \<open>raftpb.Entry\<close> of the Raft library: term, index, type and payload. Its method
  \<open>Size()\<close> (the length of the protobuf encoding) is not part of the repository and is
  a parameter \<open>esize\<close> of the functions that call it.
\<close>

record raftpb_Entry =
  Entry_Term :: u64
  Entry_Index :: u64
  Entry_Type :: "32 word"
  Entry_Data :: "byte list"

text \<open>
  \<open>AddEntries\<close>, one clause per iteration of \<open>for _, re := range entries\<close>. The slot
  is written through \<open>l.current.ReadAt(entrySize, l.entryIndex)\<close>: the second argument,
  the byte offset, is \<open>l.entryIndex\<close> itself.
\<close>

fun AddEntries :: "entryLog \<Rightarrow> raftpb_Entry list \<Rightarrow> failure + entryLog" where
  "AddEntries l [] = Inr l"
| "AddEntries l (re # rest) =
     (case (if entryIndex l \<ge> maxNumEntries then rotate l (Entry_Index re) else Inr l) of
        Inl err \<Rightarrow> Inl err
      | Inr l1 \<Rightarrow>
          (case current l1 of
             None \<Rightarrow> Inl PanicNilPointer
           | Some b \<Rightarrow>
               (case (if length (Entry_Data re) > 0 then
                        (case Buffer_SliceAllocateOffset b (int (length (Entry_Data re))) of
                           Inl p \<Rightarrow> Inl p
                         | Inr (b', offset) \<Rightarrow>
                             Inr (b'\<lparr>buf := copy_into (buf b') (nat offset) (Entry_Data re)\<rparr>,
                                  (word_of_int offset :: u64)))
                      else Inr (b, 0)) of
                  Inl p \<Rightarrow> Inl p
                | Inr (b1, dataOffset) \<Rightarrow>
                    (let e = \<lparr>Term = Entry_Term re, Index = Entry_Index re,
                              DataOffset = dataOffset, Type = Entry_Type re\<rparr>;
                         entryBuf = entry_Bytes (Some e)
                     in case Buffer_ReadAt b1 entrySize (entryIndex l1) of
                          Inl err \<Rightarrow> Inl err
                        | Inr _ \<Rightarrow>
                            AddEntries
                              (l1\<lparr>current :=
                                    Some (b1\<lparr>buf := copy_into (buf b1) (nat (entryIndex l1)) entryBuf\<rparr>),
                                  entryIndex := entryIndex l1 + 1,
                                  lastIndex := Index e\<rparr>)
                              rest))))"

text \<open>\<open>DiscardFiles\<close>: the body is a TODO comment and \<open>return nil\<close>.\<close>

definition DiscardFiles :: "entryLog \<Rightarrow> u64 \<Rightarrow> failure + entryLog" where
  "DiscardFiles l snapshotIndex = Inr l"

text \<open>\<open>FirstIndex\<close> checks its receiver: \<open>None\<close> is the nil log.\<close>

definition entryLog_FirstIndex :: "entryLog option \<Rightarrow> u64" where
  "entryLog_FirstIndex lo =
     (case lo of
        None \<Rightarrow> 0
      | Some l \<Rightarrow> if length (files l) = 0 then 0 else firstIndex (files l ! 0))"

definition entryLog_LastIndex :: "entryLog \<Rightarrow> u64" where
  "entryLog_LastIndex l = lastIndex l"

text \<open>
  \<open>(l *entryLog) Term(idx)\<close>. An error of \<open>getEntry\<close> in the second read is answered
  with \<open>return 0, nil\<close>; a panic is a panic.
\<close>

definition entryLog_Term :: "entryLog \<Rightarrow> u64 \<Rightarrow> failure + u64" where
  "entryLog_Term l idx =
     (let fileIdx = sort_Search (int (length (files l)))
                      (\<lambda>i. firstIndex (files l ! nat i) \<ge> idx)
      in case files_at (files l) fileIdx of
           Inl p \<Rightarrow> Inl p
         | Inr f \<Rightarrow>
             if firstIndex f = idx then
               (case entryFile_getEntry (current l) f 0 of
                  Inl err \<Rightarrow> Inl err
                | Inr e \<Rightarrow> Inr (Term e))
             else
               (case files_at (files l) (fileIdx - 1) of
                  Inl p \<Rightarrow> Inl p
                | Inr ef \<Rightarrow>
                    (let diff = idx - firstIndex ef in
                     case entryFile_getEntry (current l) ef (int64 (uint diff)) of
                       Inl err \<Rightarrow> if is_panic err then Inl err else Inr 0
                     | Inr e \<Rightarrow> Inr (Term e))))"

text \<open>
  \<open>(l *entryLog) allEntries\<close>. \<open>allEntries_loop\<close> is the loop
  \<open>for lo < hi && fileID < len(l.files)\<close> with its variables \<open>fileID\<close>, \<open>lo\<close>,
  \<open>sz\<close> and \<open>es\<close>; \<open>read_data\<close> is the payload slice both places build: the
  default slice first, replaced by \<open>file.mmap[e.DataOffset:nextEntry.DataOffset]\<close>
  when \<open>diff != 0\<close>. A failure drops the entries collected so far.
\<close>

definition read_data ::
  "buffer option \<Rightarrow> entryFile \<Rightarrow> entry \<Rightarrow> u64 \<Rightarrow> int \<Rightarrow> failure + byte list" where
  "read_data cur file e diff dflt_hi =
     (case slice_mmap cur (mmap file) (uint (DataOffset e)) dflt_hi of
        Inl p \<Rightarrow> Inl p
      | Inr d0 \<Rightarrow>
          if diff \<noteq> 0 then
            (case entryFile_getEntry cur file (int64 (uint (diff + 1))) of
               Inl err \<Rightarrow> Inl err
             | Inr nextEntry \<Rightarrow>
                 slice_mmap cur (mmap file) (uint (DataOffset e)) (uint (DataOffset nextEntry)))
          else Inr d0)"

function allEntries_loop ::
  "(raftpb_Entry \<Rightarrow> u64) \<Rightarrow> entryLog \<Rightarrow> u64 \<Rightarrow> u64 \<Rightarrow> int \<Rightarrow> u64 \<Rightarrow> u64 \<Rightarrow>
     raftpb_Entry list \<Rightarrow> failure + raftpb_Entry list" where
  "allEntries_loop esize l hi maxSize fileID lo sz es =
     (if lo < hi \<and> fileID < int (length (files l)) then
        (case files_at (files l) fileID of
           Inl p \<Rightarrow> Inl p
         | Inr file \<Rightarrow>
             if uint (lo - firstIndex file) = maxNumEntries then
               allEntries_loop esize l hi maxSize (fileID + 1) lo sz es
             else
               (let diff = lo - firstIndex file in
                if diff > lastIndex l then Inr es
                else
                  (case entryFile_getEntry (current l) file (int64 (uint diff)) of
                     Inl err \<Rightarrow> Inl err
                   | Inr e \<Rightarrow>
                       (case current l of
                          None \<Rightarrow> Inl PanicNilPointer
                        | Some b \<Rightarrow>
                            (case read_data (current l) file e diff
                                    (Buffer_Len b - entryFileOffset) of
                               Inl err \<Rightarrow> Inl err
                             | Inr d \<Rightarrow>
                                 (let rEntry = \<lparr>Entry_Term = Term e, Entry_Index = Index e,
                                                 Entry_Type = Type e, Entry_Data = d\<rparr>;
                                      sz' = sz + esize rEntry
                                  in if sz' > maxSize then Inr es
                                     else allEntries_loop esize l hi maxSize fileID (lo + 1) sz'
                                            (es @ [rEntry])))))))
      else Inr es)"
  by pat_completeness auto
termination
proof (relation "measure (\<lambda>(esize, l, hi, maxSize, fileID, lo, sz, es).
                    nat (int (length (files l)) - fileID) + (unat hi - unat lo))")
  show "wf (measure (\<lambda>(esize, l, hi, maxSize, fileID, lo, sz, es).
                    nat (int (length (files l)) - fileID) + (unat hi - unat lo)))"
    by simp
next
  fix esize :: "raftpb_Entry \<Rightarrow> u64" and l :: entryLog and hi maxSize :: u64
    and fileID :: int and lo sz :: u64 and es :: "raftpb_Entry list"
  assume "lo < hi \<and> fileID < int (length (files l))"
  then show "((esize, l, hi, maxSize, fileID + 1, lo, sz, es),
              (esize, l, hi, maxSize, fileID, lo, sz, es))
             \<in> measure (\<lambda>(esize, l, hi, maxSize, fileID, lo, sz, es).
                    nat (int (length (files l)) - fileID) + (unat hi - unat lo))"
    by (simp add: word_less_nat_alt) arith
next
  fix esize :: "raftpb_Entry \<Rightarrow> u64" and l :: entryLog and hi maxSize :: u64
    and fileID :: int and lo sz :: u64 and es :: "raftpb_Entry list"
    and rEntry :: raftpb_Entry and sz' :: u64
  assume "lo < hi \<and> fileID < int (length (files l))"
  then have lt: "unat lo < unat hi"
    by (simp add: word_less_nat_alt)
  have "unat hi < 2 ^ 64"
    using unsigned_less [of hi] by simp
  with lt have "unat lo + 1 < 2 ^ 64"
    by arith
  then have "unat (lo + 1) = unat lo + 1"
    by (simp add: unat_word_ariths)
  with lt show "((esize, l, hi, maxSize, fileID, lo + 1, sz', es @ [rEntry]),
              (esize, l, hi, maxSize, fileID, lo, sz, es))
             \<in> measure (\<lambda>(esize, l, hi, maxSize, fileID, lo, sz, es).
                    nat (int (length (files l)) - fileID) + (unat hi - unat lo))"
    by simp
qed

definition entryLog_allEntries ::
  "(raftpb_Entry \<Rightarrow> u64) \<Rightarrow> entryLog \<Rightarrow> u64 \<Rightarrow> u64 \<Rightarrow> u64 \<Rightarrow>
     failure + raftpb_Entry list" where
  "entryLog_allEntries esize l lo hi maxSize =
     (if lo < entryLog_FirstIndex (Some l) then Inl ErrLowLessThanFirst
      else
        (let fileID = sort_Search (int (length (files l)))
                        (\<lambda>i. firstIndex (files l ! nat i) \<ge> lo)
         in case files_at (files l) fileID of
              Inl p \<Rightarrow> Inl p
            | Inr file0 \<Rightarrow>
                if firstIndex file0 \<noteq> lo then
                  (if fileID = 0 then Inl PanicAssert
                   else
                     (case files_at (files l) (fileID - 1) of
                        Inl p \<Rightarrow> Inl p
                      | Inr file \<Rightarrow>
                          (let diff = lo - firstIndex file in
                           case entryFile_getEntry (current l) file (int64 (uint diff)) of
                             Inl err \<Rightarrow> Inl err
                           | Inr e \<Rightarrow>
                               if Index e \<noteq> lo then Inl PanicAssert
                               else
                                 (case read_data (current l) file e diff
                                         (mmap_cap (current l) (mmap file)) of
                                    Inl err \<Rightarrow> Inl err
                                  | Inr d \<Rightarrow>
                                      (let re = \<lparr>Entry_Term = Term e, Entry_Index = Index e,
                                                  Entry_Type = Type e, Entry_Data = d\<rparr>;
                                           sz = 0 + esize re
                                       in if sz > maxSize then Inr [re]
                                          else allEntries_loop esize l hi maxSize (fileID - 1)
                                                 (lo + 1) sz [re])))))
                else
                  (if (0 :: u64) > maxSize then Inr []
                   else allEntries_loop esize l hi maxSize fileID lo 0 [])))"

text \<open>
  \<open>openEntryLog\<close>. The directory scan \<open>getEntryFiles(dir)\<close> reads the file system; its
  result, the entry files found, sorted by first index, is the argument \<open>found\<close>. With
  no file the log creates \<open>1.ent\<close>. With files, the identifier of the last one is parsed
  by \<open>strconv.ParseUint(strings.Split(".ent", path)[0], 10, 32)\<close>, where the variable
  \<open>path\<close> still holds the empty string.
\<close>

definition openEntryLog :: "string \<Rightarrow> entryFile list \<Rightarrow> failure + entryLog" where
  "openEntryLog d found =
     (let e = \<lparr>files = found, currentFid = 0, current = None, entryIndex = 0,
                lastIndex = 0, dir = d\<rparr>
      in if length found = 0 then
           (let p = Sprintf_d 1 @ ''.ent'';
                b = NewMmapFile entryFileSize entryFileMaxSize entryFileOffset;
                e1 = e\<lparr>currentFid := 1, current := Some b,
                       files := found @ [\<lparr>firstIndex = 0, path = p, mmap = CurrentMap\<rparr>]\<rparr>
            in zeroOut e1 (entryIndex e1))
         else
           (case strconv_ParseUint_10_32 (hd (strings_Split_empty_sep ''.ent'')) of
              Inl err \<Rightarrow> Inl err
            | Inr fid \<Rightarrow>
                (let b = \<lparr>buf = mmap_bytes None (mmap (last found)), bcap = entryFileMaxSize,
                          boffset = entryFileOffset\<rparr>;
                     e1 = e\<lparr>currentFid := fid, current := Some b\<rparr>
                 in case firstEmpty e1 of
                      Inl err \<Rightarrow> Inl err
                    | Inr n \<Rightarrow> zeroOut (e1\<lparr>entryIndex := n\<rparr>) n)))"

subsection \<open>The meta file\<close>

text \<open>
  \<open>raftpb.HardState\<close> and \<open>raftpb.Snapshot\<close> of the Raft library, with
  \<open>raft.IsEmptyHardState\<close> (all three fields zero) and \<open>raft.IsEmptySnap\<close> (the
  index of the metadata is zero).
\<close>

record raftpb_HardState =
  HardState_Term :: u64
  HardState_Vote :: u64
  HardState_Commit :: u64

record raftpb_Snapshot =
  Snapshot_Data :: "byte list"
  Snapshot_ConfState :: "u64 list"
  Snapshot_Index :: u64
  Snapshot_Term :: u64

definition IsEmptyHardState :: "raftpb_HardState \<Rightarrow> bool" where
  "IsEmptyHardState st =
     (HardState_Term st = 0 \<and> HardState_Vote st = 0 \<and> HardState_Commit st = 0)"

definition IsEmptySnap :: "raftpb_Snapshot \<Rightarrow> bool" where
  "IsEmptySnap sp = (Snapshot_Index sp = 0)"

text \<open>
  Modelled from the spec: the meta file keeps its records in length-prefixed slots that
  \<open>z.Buffer\<close> reads (\<open>Slice\<close>) and writes (\<open>WriteSliceAt\<close>), and the records are
  protobuf encodings; neither the buffer nor the encoding is in the repository. Section
  4.2 of the specification gives the slots (hard state at 512, snapshot at 1024) and what
  a reader sees; a slot is modelled by what reading it yields: \<open>NoSlice\<close> when \<open>Slice\<close>
  returns nil, \<open>ZeroLen\<close> for a zero length (the record is absent), \<open>Undecodable\<close> when
  \<open>Unmarshal\<close> fails, and \<open>Stored x\<close> when the bytes decode to \<open>x\<close>. Writing a
  record leaves the slot \<open>Stored\<close> with it.
\<close>

datatype 'a slot = NoSlice | ZeroLen | Undecodable | Stored 'a

record metaFile =
  hardState_slot :: "raftpb_HardState slot"
  snapshot_slot :: "raftpb_Snapshot slot"

text \<open>\<open>StoreHardState(hs *raftpb.HardState)\<close>: \<open>None\<close> is the nil pointer.\<close>

definition StoreHardState :: "metaFile \<Rightarrow> raftpb_HardState option \<Rightarrow> failure + metaFile" where
  "StoreHardState m hs =
     (case hs of
        None \<Rightarrow> Inr m
      | Some h \<Rightarrow> if IsEmptyHardState h then Inr m else Inr (m\<lparr>hardState_slot := Stored h\<rparr>))"


definition StoreSnapshot :: "metaFile \<Rightarrow> raftpb_Snapshot option \<Rightarrow> failure + metaFile" where
  "StoreSnapshot m sp =
     (case sp of
        None \<Rightarrow> Inr m
      | Some sn \<Rightarrow> if IsEmptySnap sn then Inr m else Inr (m\<lparr>snapshot_slot := Stored sn\<rparr>))"

definition metaFile_Snapshot :: "metaFile \<Rightarrow> failure + raftpb_Snapshot" where
  "metaFile_Snapshot m =
     (case snapshot_slot m of
        NoSlice \<Rightarrow> Inl ErrCannotRead
      | ZeroLen \<Rightarrow> Inr \<lparr>Snapshot_Data = [], Snapshot_ConfState = [], Snapshot_Index = 0,
                         Snapshot_Term = 0\<rparr>
      | Undecodable \<Rightarrow> Inl ErrCannotRead
      | Stored sn \<Rightarrow> Inr sn)"

subsection \<open>DiskStorage\<close>

text \<open>
  The store: the meta file, the entry log, the two cache keys the code reads
  (\<open>snapshotKey\<close> and \<open>lastKey\<close> of the \<open>sync.Map\<close>), and the badger database
  \<open>db\<close> that \<open>allEntries\<close>, \<open>setSnapshot\<close> and \<open>Save\<close> still go through. Badger
  is not part of the repository: the database is the list of the entries under this
  store's key prefix, in key order (\<open>EntryKey\<close> is big-endian, so key order is index
  order); a write batch is the list of its \<open>Set\<close> calls, applied by \<open>Flush\<close>.
\<close>

record indexRange =
  range_from :: u64
  range_until :: u64

record DiskStorage =
  meta :: metaFile
  entries :: entryLog
  cache_snapshot :: "raftpb_Snapshot option"
  cache_last :: "u64 option"
  db :: "(u64 \<times> raftpb_Entry) list"
  indexRangeChan :: "indexRange list"

fun db_set :: "u64 \<Rightarrow> raftpb_Entry \<Rightarrow> (u64 \<times> raftpb_Entry) list \<Rightarrow> (u64 \<times> raftpb_Entry) list" where
  "db_set k v [] = [(k, v)]"
| "db_set k v ((k', v') # kvs) =
     (if k < k' then (k, v) # (k', v') # kvs
      else if k = k' then (k, v) # kvs
      else (k', v') # db_set k v kvs)"

definition batch_Flush ::
  "(u64 \<times> raftpb_Entry) list \<Rightarrow> (u64 \<times> raftpb_Entry) list \<Rightarrow> (u64 \<times> raftpb_Entry) list" where
  "batch_Flush d batch = foldl (\<lambda>acc (k, v). db_set k v acc) d batch"

definition DiskStorage_Term :: "DiskStorage \<Rightarrow> u64 \<Rightarrow> failure + u64" where
  "DiskStorage_Term w i = entryLog_Term (entries w) i"

text \<open>
  The discard worker \<open>processIndexRange\<close>: \<open>processSingleRange\<close> returns at once for an
  empty range and otherwise holds a TODO and commented-out code, so it changes nothing.
  Draining the channel applies it to every queued range.
\<close>

definition processSingleRange :: "DiskStorage \<Rightarrow> indexRange \<Rightarrow> DiskStorage" where
  "processSingleRange w r = (if range_from r = range_until r then w else w)"

definition processIndexRange :: "DiskStorage \<Rightarrow> DiskStorage" where
  "processIndexRange w = (foldl processSingleRange w (indexRangeChan w))\<lparr>indexRangeChan := []\<rparr>"

definition DiskStorage_LastIndex :: "DiskStorage \<Rightarrow> failure + u64" where
  "DiskStorage_LastIndex w = Inr (entryLog_LastIndex (entries w))"

definition DiskStorage_Snapshot :: "DiskStorage \<Rightarrow> failure + raftpb_Snapshot" where
  "DiskStorage_Snapshot w =
     (case cache_snapshot w of
        Some sn \<Rightarrow> if \<not> IsEmptySnap sn then Inr sn else metaFile_Snapshot (meta w)
      | None \<Rightarrow> metaFile_Snapshot (meta w))"

definition DiskStorage_FirstIndex :: "DiskStorage \<Rightarrow> failure + u64" where
  "DiskStorage_FirstIndex w =
     (case DiskStorage_Snapshot w of
        Inr sn \<Rightarrow>
          if \<not> IsEmptySnap sn then Inr (Snapshot_Index sn + 1)
          else Inr (entryLog_FirstIndex (Some (entries w)))
      | Inl err \<Rightarrow> Inr (entryLog_FirstIndex (Some (entries w))))"

text \<open>
  \<open>(w *DiskStorage) allEntries\<close>, the reader over the database that \<open>Entries\<close> calls:
  a single \<open>Get\<close> when \<open>hi - lo == 1\<close>, else the iterator from \<open>Seek(EntryKey(lo))\<close>;
  \<open>DiskStorage_iterate\<close> is its loop with the variables \<open>size\<close>, \<open>lastIndex\<close>,
  \<open>first\<close> and \<open>es\<close>.
\<close>

fun DiskStorage_iterate ::
  "(raftpb_Entry \<Rightarrow> u64) \<Rightarrow> u64 \<Rightarrow> u64 \<Rightarrow> u64 \<Rightarrow> (u64 \<times> raftpb_Entry) list \<Rightarrow> u64 \<Rightarrow> u64 \<Rightarrow>
     bool \<Rightarrow> raftpb_Entry list \<Rightarrow> failure + raftpb_Entry list" where
  "DiskStorage_iterate esize lo hi maxSize [] sz lastIdx first es = Inr es"
| "DiskStorage_iterate esize lo hi maxSize ((k, e) # kvs) sz lastIdx first es =
     (if \<not> (Entry_Index e > lastIdx \<and> Entry_Index e \<ge> lo) then Inl PanicAssert
      else if k \<ge> hi then Inr es
      else (let sz' = sz + esize e in
            if sz' > maxSize \<and> \<not> first then Inr es
            else DiskStorage_iterate esize lo hi maxSize kvs sz' (Entry_Index e) False (es @ [e])))"

definition DiskStorage_allEntries ::
  "(raftpb_Entry \<Rightarrow> u64) \<Rightarrow> DiskStorage \<Rightarrow> u64 \<Rightarrow> u64 \<Rightarrow> u64 \<Rightarrow> failure + raftpb_Entry list" where
  "DiskStorage_allEntries esize w lo hi maxSize =
     (if hi - lo = 1 then
        (case map_of (db w) lo of
           None \<Rightarrow> Inl ErrKeyNotFound
         | Some e \<Rightarrow> Inr [e])
      else DiskStorage_iterate esize lo hi maxSize
             (dropWhile (\<lambda>(k, e). k < lo) (db w)) 0 0 True [])"

definition DiskStorage_Entries ::
  "(raftpb_Entry \<Rightarrow> u64) \<Rightarrow> DiskStorage \<Rightarrow> u64 \<Rightarrow> u64 \<Rightarrow> u64 \<Rightarrow> failure + raftpb_Entry list" where
  "DiskStorage_Entries esize w lo hi maxSize =
     (let first = entryLog_FirstIndex (Some (entries w)) in
      if lo < first then Inl ErrCompacted
      else (let last = entryLog_LastIndex (entries w) in
            if hi > last + 1 then Inl ErrUnavailable
            else DiskStorage_allEntries esize w lo hi maxSize))"

definition setSnapshot ::
  "DiskStorage \<Rightarrow> (u64 \<times> raftpb_Entry) list \<Rightarrow> raftpb_Snapshot option \<Rightarrow>
     failure + (DiskStorage \<times> (u64 \<times> raftpb_Entry) list)" where
  "setSnapshot w batch sp =
     (case sp of
        None \<Rightarrow> Inr (w, batch)
      | Some sn \<Rightarrow>
          if IsEmptySnap sn then Inr (w, batch)
          else
            (case StoreSnapshot (meta w) sp of
               Inl err \<Rightarrow> Inl err
             | Inr m' \<Rightarrow>
                 (let e = \<lparr>Entry_Term = Snapshot_Term sn, Entry_Index = Snapshot_Index sn,
                           Entry_Type = 0, Entry_Data = []\<rparr>
                  in Inr (w\<lparr>meta := m',
                            cache_last :=
                              (case cache_last w of
                                 None \<Rightarrow> None
                               | Some le \<Rightarrow> if le < Entry_Index e then Some (Entry_Index e)
                                            else Some le),
                            cache_snapshot := Some sn\<rparr>,
                          batch @ [(Entry_Index e, e)]))))"

text \<open>
  \<open>Save\<close>: the entries, then the hard state, then the snapshot, then the flush of the
  batch. An error returns before the later steps.
\<close>

definition Save ::
  "DiskStorage \<Rightarrow> raftpb_HardState option \<Rightarrow> raftpb_Entry list \<Rightarrow> raftpb_Snapshot option \<Rightarrow>
     failure + DiskStorage" where
  "Save w h es sp =
     (case AddEntries (entries w) es of
        Inl err \<Rightarrow> Inl err
      | Inr l' \<Rightarrow>
          (case StoreHardState (meta w) h of
             Inl err \<Rightarrow> Inl err
           | Inr m' \<Rightarrow>
               (case setSnapshot (w\<lparr>entries := l', meta := m'\<rparr>) [] sp of
                  Inl err \<Rightarrow> Inl err
                | Inr (w', batch) \<Rightarrow> Inr (w'\<lparr>db := batch_Flush (db w') batch\<rparr>))))"

subsection \<open>Example states\<close>

text \<open>
  \<open>slots_image es\<close> are the bytes of a file whose index region holds the slots \<open>es\<close>,
  32 bytes each from offset 0, and zero bytes after them. \<open>example_log\<close> is the log of a
  directory that holds entries 1, 2 and 3 of term 7 without payload in the file
  \<open>1.ent\<close>; \<open>example_store\<close> is a store over it whose snapshot is at index 2.
\<close>

definition slots_image :: "entry list \<Rightarrow> nat \<Rightarrow> byte" where
  "slots_image es =
     (\<lambda>i. if i < 32 * length es then concat (map (\<lambda>e. entry_Bytes (Some e)) es) ! i else 0)"

definition example_slots :: "entry list" where
  "example_slots =
     [\<lparr>Term = 7, Index = 1, DataOffset = 0, Type = 0\<rparr>,
      \<lparr>Term = 7, Index = 2, DataOffset = 0, Type = 0\<rparr>,
      \<lparr>Term = 7, Index = 3, DataOffset = 0, Type = 0\<rparr>]"

definition example_log :: entryLog where
  "example_log =
     \<lparr>files = [\<lparr>firstIndex = 1, path = ''1.ent'', mmap = CurrentMap\<rparr>], currentFid = 1,
      current = Some \<lparr>buf = slots_image example_slots, bcap = entryFileMaxSize,
                      boffset = entryFileOffset\<rparr>,
      entryIndex = 3, lastIndex = 3, dir = ''wal''\<rparr>"

definition example_snapshot :: raftpb_Snapshot where
  "example_snapshot =
     \<lparr>Snapshot_Data = [], Snapshot_ConfState = [], Snapshot_Index = 2, Snapshot_Term = 7\<rparr>"

definition example_store :: DiskStorage where
  "example_store =
     \<lparr>meta = \<lparr>hardState_slot = ZeroLen, snapshot_slot = Stored example_snapshot\<rparr>,
      entries = example_log, cache_snapshot = Some example_snapshot, cache_last = None,
      db = [], indexRangeChan = []\<rparr>"

text \<open>
  \<open>mk_entry t i\<close> is a Raft entry of term \<open>t\<close> and index \<open>i\<close> without payload.
  \<open>full_log\<close> is a log whose only file holds \<open>maxNumEntries\<close> entries, 1 to 30000.
\<close>

definition mk_entry :: "u64 \<Rightarrow> u64 \<Rightarrow> raftpb_Entry" where
  "mk_entry t i = \<lparr>Entry_Term = t, Entry_Index = i, Entry_Type = 0, Entry_Data = []\<rparr>"

definition full_slots :: "entry list" where
  "full_slots =
     map (\<lambda>i. \<lparr>Term = 7, Index = of_nat (i + 1), DataOffset = 0, Type = 0\<rparr>) [0..<30000]"

definition full_log :: entryLog where
  "full_log =
     \<lparr>files = [\<lparr>firstIndex = 1, path = ''1.ent'', mmap = CurrentMap\<rparr>], currentFid = 1,
      current = Some \<lparr>buf = slots_image full_slots, bcap = entryFileMaxSize,
                      boffset = entryFileOffset\<rparr>,
      entryIndex = 30000, lastIndex = 30000, dir = ''wal''\<rparr>"

text \<open>
  \<open>fresh_store l\<close> is a store over the log \<open>l\<close> with an empty meta file, an empty
  cache and an empty database; \<open>snapshot_at_5\<close> a snapshot at index 5;
  \<open>hard_state t\<close> a hard state of term \<open>t\<close>.
\<close>

definition fresh_store :: "entryLog \<Rightarrow> DiskStorage" where
  "fresh_store l =
     \<lparr>meta = \<lparr>hardState_slot = ZeroLen, snapshot_slot = ZeroLen\<rparr>, entries = l,
      cache_snapshot = None, cache_last = None, db = [], indexRangeChan = []\<rparr>"

definition snapshot_at_5 :: raftpb_Snapshot where
  "snapshot_at_5 =
     \<lparr>Snapshot_Data = [], Snapshot_ConfState = [], Snapshot_Index = 5, Snapshot_Term = 1\<rparr>"


subsection \<open>Sequences of saves\<close>





section \<open>Properties of the codec\<close>

lemma bit_byte_at:
  "k + 8 \<le> 64 \<Longrightarrow>
     bit (push_bit k (ucast (ucast (drop_bit k (v::u64)) :: byte)) :: u64) n
       \<longleftrightarrow> k \<le> n \<and> n < k + 8 \<and> bit v n"
  by (auto simp: bit_simps)

lemma bit_byte_low:
  "bit (ucast (ucast (v::u64) :: byte) :: u64) n \<longleftrightarrow> n < 8 \<and> bit v n"
  by (auto simp: bit_simps)

lemma Uint64_PutUint64 [simp]: "Uint64 (PutUint64 v @ rest) = v"
proof (rule bit_word_eqI)
  fix n :: nat
  assume "n < LENGTH(64)"
  then have n: "n < 64" by simp
  have "bit (Uint64 (PutUint64 v @ rest)) n \<longleftrightarrow>
      (n < 8 \<or> (8 \<le> n \<and> n < 16) \<or> (16 \<le> n \<and> n < 24) \<or> (24 \<le> n \<and> n < 32) \<or>
       (32 \<le> n \<and> n < 40) \<or> (40 \<le> n \<and> n < 48) \<or> (48 \<le> n \<and> n < 56) \<or>
       (56 \<le> n \<and> n < 64)) \<and> bit v n"
    unfolding Uint64_def PutUint64_def
    by (simp add: bit_or_iff bit_byte_at bit_byte_low) blast
  also have "\<dots> \<longleftrightarrow> bit v n"
    using n by arith
  finally show "bit (Uint64 (PutUint64 v @ rest)) n = bit v n" .
qed

lemma Uint64_PutUint64_plain [simp]: "Uint64 (PutUint64 v) = v"
  using Uint64_PutUint64 [of v "[]"] by simp

lemma length_PutUint64 [simp]: "length (PutUint64 v) = 8"
  by (simp add: PutUint64_def)

lemma ucast_scast_EntryType [simp]: "ucast (scast (x :: 32 word) :: u64) = x"
  by (rule bit_word_eqI) (auto simp: bit_simps)

text \<open>
  Big-endian: byte \<open>i\<close> of the eight holds the bits \<open>8 * (7 - i)\<close> to
  \<open>8 * (7 - i) + 7\<close> of the value, the most significant byte first.
\<close>

lemma PutUint64_big_endian:
  assumes "i < 8" "j < 8"
  shows "bit (PutUint64 v ! i) j \<longleftrightarrow> bit v (8 * (7 - i) + j)"
proof -
  from assms(1) have "i = 0 \<or> i = 1 \<or> i = 2 \<or> i = 3 \<or> i = 4 \<or> i = 5 \<or> i = 6 \<or> i = 7"
    by arith
  then show ?thesis
    using assms(2)
    by (elim disjE) (simp_all add: PutUint64_def bit_simps add.commute)
qed

lemma length_entry_Bytes [simp]: "length (entry_Bytes (Some e)) = 32"
  by simp

lemma entryFromBytes_Bytes [simp]: "entryFromBytes (entry_Bytes (Some e) @ rest) = Inr e"
  by (simp add: entryFromBytes_def)

lemma entryFromBytes_Bytes_plain: "entryFromBytes (entry_Bytes (Some e)) = Inr e"
  using entryFromBytes_Bytes [of e "[]"] by simp

text \<open>
  C9. Serialising an entry gives exactly 32 bytes: the term at \<open>[0..8)\<close>, the index at
  \<open>[8..16)\<close>, the payload offset at \<open>[16..24)\<close> and the type, widened to 64 bits, at
  \<open>[24..32)\<close>, each as the eight big-endian bytes of \<open>PutUint64\<close>, which
  \<open>Uint64\<close> reads back; deserialising the 32 bytes returns the entry, and so
  serialisation is one-to-one on entries.
\<close>

theorem entry_codec_roundtrip:
  "length (entry_Bytes (Some e)) = 32
   \<and> take 8 (entry_Bytes (Some e)) = PutUint64 (Term e)
   \<and> take 8 (drop 8 (entry_Bytes (Some e))) = PutUint64 (Index e)
   \<and> take 8 (drop 16 (entry_Bytes (Some e))) = PutUint64 (DataOffset e)
   \<and> take 8 (drop 24 (entry_Bytes (Some e))) = PutUint64 (scast (Type e))
   \<and> Uint64 (take 8 (entry_Bytes (Some e))) = Term e
   \<and> Uint64 (take 8 (drop 8 (entry_Bytes (Some e)))) = Index e
   \<and> Uint64 (take 8 (drop 16 (entry_Bytes (Some e)))) = DataOffset e
   \<and> ucast (Uint64 (take 8 (drop 24 (entry_Bytes (Some e))))) = Type e
   \<and> entryFromBytes (entry_Bytes (Some e)) = Inr e
   \<and> inj (\<lambda>e. entry_Bytes (Some e))"
proof -
  have inj: "inj (\<lambda>e. entry_Bytes (Some e))"
  proof (rule injI)
    fix x y :: entry
    assume "entry_Bytes (Some x) = entry_Bytes (Some y)"
    then have "entryFromBytes (entry_Bytes (Some x)) = entryFromBytes (entry_Bytes (Some y))"
      by (rule arg_cong)
    then show "x = y"
      by (simp only: entryFromBytes_Bytes_plain sum.inject)
  qed
  show ?thesis
    by (intro conjI inj entryFromBytes_Bytes_plain; simp)
qed

section \<open>Reading slots\<close>

lemma concat_nth_uniform:
  "(\<And>x. x \<in> set xs \<Longrightarrow> length x = n) \<Longrightarrow> k < length xs \<Longrightarrow> j < n \<Longrightarrow>
     concat xs ! (n * k + j) = xs ! k ! j"
proof (induction xs arbitrary: k)
  case Nil
  then show ?case by simp
next
  case (Cons x xs)
  show ?case
  proof (cases k)
    case 0
    with Cons.prems show ?thesis by (simp add: nth_append)
  next
    case (Suc k')
    have lx: "length x = n" using Cons.prems(1) by simp
    have "concat (x # xs) ! (n * k + j) = concat xs ! (n * k' + j)"
      using Suc lx by (simp add: nth_append)
    also have "\<dots> = xs ! k' ! j"
      using Cons.IH [of k'] Cons.prems Suc by simp
    finally show ?thesis using Suc by simp
  qed
qed

lemma map_slots_image:
  assumes "k < length es"
  shows "map (slots_image es) [32 * k..<32 * k + 32] = entry_Bytes (Some (es ! k))"
proof (rule nth_equalityI)
  show "length (map (slots_image es) [32 * k..<32 * k + 32]) = length (entry_Bytes (Some (es ! k)))"
    by simp
next
  fix i
  assume "i < length (map (slots_image es) [32 * k..<32 * k + 32])"
  then have i: "i < 32" by simp
  have lt: "32 * k + i < 32 * length es"
    using assms i by arith
  have "concat (map (\<lambda>e. entry_Bytes (Some e)) es) ! (32 * k + i)
          = map (\<lambda>e. entry_Bytes (Some e)) es ! k ! i"
    by (rule concat_nth_uniform) (use assms i in auto)
  then show "map (slots_image es) [32 * k..<32 * k + 32] ! i = entry_Bytes (Some (es ! k)) ! i"
    using i lt assms by (simp add: slots_image_def del: entry_Bytes.simps)
qed

lemma int64_small: "- 9223372036854775808 \<le> x \<Longrightarrow> x < 9223372036854775808 \<Longrightarrow> int64 x = x"
  unfolding int64_def by (simp add: mod_pos_pos_trivial)

lemma getEntry_slots_image:
  assumes "k < length es" "length es \<le> 30000" "mmap_bytes cur (mmap ef) = slots_image es"
    "mmap_cap cur (mmap ef) = entryFileMaxSize"
  shows "entryFile_getEntry cur ef (int k) = Inr (es ! k)"
proof -
  have k: "int k < 30000" using assms by simp
  have o1: "int64 (int k * entrySize) = int k * 32"
    using k by (simp add: int64_small)
  have o2: "int64 (int k * 32 + entrySize) = int k * 32 + 32"
    using k by (simp add: int64_small)
  have n1: "nat (int k * 32) = 32 * k" by (simp add: nat_mult_distrib)
  have n2: "nat (int k * 32 + 32) = 32 * k + 32" by (simp add: nat_add_distrib nat_mult_distrib)
  have "slice_mmap cur (mmap ef) (int k * 32) (int k * 32 + 32) = Inr (entry_Bytes (Some (es ! k)))"
    unfolding slice_mmap_def slice_mem_def
    using k assms by (simp add: n1 n2 map_slots_image del: entry_Bytes.simps)
  then show ?thesis
    unfolding entryFile_getEntry_def Let_def o1 o2 
    by (simp add: entryFromBytes_Bytes_plain del: entry_Bytes.simps)
qed

lemma copy_into_slot:
  "map (copy_into m off bs) [off..<off + length bs] = bs"
  by (rule nth_equalityI) (simp_all add: copy_into_def)

lemma entryFromBytes_prefix:
  assumes "32 \<le> length b"
  shows "entryFromBytes b = entryFromBytes (take 32 b)"
proof -
  have "Uint64 (drop k b) = Uint64 (drop k (take 32 b))" if "k + 8 \<le> 32" for k
    using that assms by (simp add: Uint64_def drop_take min_def)
  from this [of 0] this [of 8] this [of 16] this [of 24] assms
  show ?thesis by (auto simp: entryFromBytes_def)
qed

lemma getEntryFile_reads_slot0:
  assumes "map m [0..<32] = entry_Bytes (Some e)"
  shows "getEntryFile p m = Inr \<lparr>firstIndex = Index e, path = p, mmap = FileMap m\<rparr>"
proof -
  have "take 32 (map m [0..<nat entryFileMaxSize]) = map m [0..<32]"
    by (simp add: take_map del: upt_rec_numeral)
  then have "entryFromBytes (map m [0..<nat entryFileMaxSize]) = Inr e"
    using entryFromBytes_prefix [of "map m [0..<nat entryFileMaxSize]"] assms
    by (simp add: entryFromBytes_Bytes_plain del: upt_rec_numeral entry_Bytes.simps)
  then show ?thesis by (simp add: getEntryFile_def)
qed

section \<open>Term lookup\<close>

lemma example_getEntry:
  "k < 3 \<Longrightarrow> entryFile_getEntry (current example_log) (files example_log ! 0) (int k) = Inr (example_slots ! k)"
  by (rule getEntry_slots_image) (simp_all add: example_log_def example_slots_def)

lemma sort_Search_loop_all_false:
  "0 \<le> i \<Longrightarrow> i \<le> j \<Longrightarrow> (\<And>h. i \<le> h \<Longrightarrow> h < j \<Longrightarrow> \<not> f h) \<Longrightarrow> sort_Search_loop f i j = j"
proof (induction f i j rule: sort_Search_loop.induct)
  case (1 f i j)
  show ?case
  proof (cases "i < j")
    case True
    define h where "h = (i + j) div 2"
    have h: "i \<le> h" "h < j" using True "1.prems" by (auto simp: h_def)
    then have nf: "\<not> f h" using "1.prems" by simp
    have "sort_Search_loop f (h + 1) j = j"
      using "1.IH"(1) [of h] True nf h "1.prems" by (simp add: h_def)
    then show ?thesis
      using True nf by (subst sort_Search_loop.simps) (simp add: h_def Let_def)
  next
    case False
    then show ?thesis using "1.prems" by simp
  qed
qed

lemma sort_Search_all_false:
  "0 \<le> n \<Longrightarrow> (\<And>h. 0 \<le> h \<Longrightarrow> h < n \<Longrightarrow> \<not> f h) \<Longrightarrow> sort_Search n f = n"
  unfolding sort_Search_def by (rule sort_Search_loop_all_false) auto

lemma Term_beyond_every_first_index:
  assumes "\<And>f. f \<in> set (files l) \<Longrightarrow> firstIndex f < idx"
  shows "entryLog_Term l idx = Inl PanicIndexOutOfRange"
proof -
  have "sort_Search (int (length (files l))) (\<lambda>i. firstIndex (files l ! nat i) \<ge> idx)
          = int (length (files l))"
  proof (rule sort_Search_all_false)
    fix h :: int
    assume "0 \<le> h" "h < int (length (files l))"
    then have "files l ! nat h \<in> set (files l)" by simp
    then show "\<not> idx \<le> firstIndex (files l ! nat h)"
      using assms by (simp add: not_le)
  qed simp
  then show ?thesis
    by (simp add: entryLog_Term_def files_at_def)
qed

text \<open>
  C10. The claim: for every index between the first and the last index of a log with at
  least one file, the term lookup makes only in-bounds accesses and never panics. The
  code at \<open>example_log\<close>, whose first index is 1 and last index is 3: for the indices
  2 and 3, which are greater than the first index of every file, \<open>sort.Search\<close>
  returns \<open>len(l.files)\<close> and \<open>l.files[fileIdx]\<close> panics with an index out of
  range. The same happens in the log the code itself builds: a directory opened for the
  first time, then the entries 1, 2 and 3 appended. (The lemma before this one shows it
  for every log and every such index.)
\<close>

theorem Term_panics_inside_tail_file:
  "entryLog_FirstIndex (Some example_log) = 1 \<and> entryLog_LastIndex example_log = 3
   \<and> entryLog_Term example_log 2 = Inl PanicIndexOutOfRange
   \<and> entryLog_Term example_log 3 = Inl PanicIndexOutOfRange
   \<and> (case openEntryLog ''wal'' [] of
          Inl err \<Rightarrow> False
        | Inr l0 \<Rightarrow>
            (case AddEntries l0 [mk_entry 1 1, mk_entry 1 2, mk_entry 1 3] of
               Inl err \<Rightarrow> False
             | Inr l \<Rightarrow>
                 entryLog_FirstIndex (Some l) = 0 \<and> entryLog_LastIndex l = 3
                 \<and> entryLog_Term l 2 = Inl PanicIndexOutOfRange))"
  by (simp add: example_log_def entryLog_FirstIndex_def entryLog_LastIndex_def
        entryLog_Term_def sort_Search_def files_at_def word_le_nat_alt
        openEntryLog_def zeroOut_def NewMmapFile_def Buffer_First_def Buffer_ReadAt_def
        digit_char_def mk_entry_def)

lemma files_at_Inl: "files_at fs i = Inl p \<Longrightarrow> p = PanicIndexOutOfRange"
  by (auto simp: files_at_def split: if_splits)

lemma getEntry_Inl:
  "entryFile_getEntry cur f i = Inl p \<Longrightarrow> p = PanicSliceBounds \<or> p = ErrInvalidByteArraySize"
  by (auto simp: entryFile_getEntry_def Let_def slice_mmap_def slice_mem_def entryFromBytes_def
      split: sum.splits if_splits)

lemma Term_never_Compacted_nor_Unavailable:
  "DiskStorage_Term w i \<noteq> Inl ErrCompacted \<and> DiskStorage_Term w i \<noteq> Inl ErrUnavailable"
  unfolding DiskStorage_Term_def entryLog_Term_def Let_def
  by (auto split: sum.splits if_splits dest!: files_at_Inl getEntry_Inl)

text \<open>
  C2. The claim: the term lookup fails with Compacted below the snapshot index, with
  Unavailable above the last index, and otherwise returns the term of the slot. The code
  at \<open>example_store\<close> (snapshot at index 2, last index 3): the lookup of index 1,
  below the snapshot, returns term 7, and the lookup of index 9, above the last index,
  panics. (The lemma before this one: no lookup ever returns either error.)
\<close>

theorem Term_ignores_snapshot_and_last_index:
  "DiskStorage_Snapshot example_store = Inr example_snapshot
   \<and> Snapshot_Index example_snapshot = 2
   \<and> DiskStorage_LastIndex example_store = Inr 3
   \<and> DiskStorage_Term example_store 1 = Inr 7
   \<and> DiskStorage_Term example_store 9 = Inl PanicIndexOutOfRange"
proof -
  have "entryFile_getEntry (current example_log) (files example_log ! 0) (int 0) = Inr (example_slots ! 0)"
    by (rule example_getEntry) simp
  then have g: "entryFile_getEntry (current example_log) \<lparr>firstIndex = 1, path = ''1.ent'', mmap = CurrentMap\<rparr> 0 = Inr \<lparr>Term = 7, Index = 1, DataOffset = 0, Type = 0\<rparr>"
    by (simp add: example_log_def example_slots_def)
  have s: "sort_Search 1 (\<lambda>i. (1::u64) \<le> firstIndex ([\<lparr>firstIndex = 1, path = ''1.ent'', mmap = CurrentMap\<rparr>] ! nat i)) = 0"
    by (simp add: sort_Search_def)
  have t1: "DiskStorage_Term example_store 1 = Inr 7"
    unfolding DiskStorage_Term_def entryLog_Term_def
    using g s by (simp add: example_store_def example_log_def files_at_def)
  have t9: "DiskStorage_Term example_store 9 = Inl PanicIndexOutOfRange"
    by (simp add: DiskStorage_Term_def example_store_def example_log_def
        entryLog_Term_def sort_Search_def files_at_def)
  show ?thesis
    using t1 t9
    by (simp add: DiskStorage_Snapshot_def DiskStorage_LastIndex_def entryLog_LastIndex_def
        example_store_def example_snapshot_def IsEmptySnap_def example_log_def)
qed

section \<open>First index\<close>

text \<open>
  What \<open>DiskStorage.FirstIndex\<close> returns, in terms of what is stored: with a non-empty
  snapshot in the cache, or else in the snapshot slot of the meta file, the snapshot's
  index plus one; with neither, the field \<open>firstIndex\<close> of the first \<open>entryFile\<close>
  of the log, or 0 when the log has no file.
\<close>

lemma FirstIndex_of_stored_snapshot:
  "(cache_snapshot w = Some sn \<and> \<not> IsEmptySnap sn \<longrightarrow>
        DiskStorage_FirstIndex w = Inr (Snapshot_Index sn + 1))
   \<and> ((cache_snapshot w = None \<or> (\<exists>c. cache_snapshot w = Some c \<and> IsEmptySnap c))
        \<and> snapshot_slot (meta w) = Stored sn \<and> \<not> IsEmptySnap sn \<longrightarrow>
        DiskStorage_FirstIndex w = Inr (Snapshot_Index sn + 1))"
  by (auto simp: DiskStorage_FirstIndex_def DiskStorage_Snapshot_def metaFile_Snapshot_def)

lemma FirstIndex_without_stored_snapshot:
  assumes "cache_snapshot w = None \<or> (\<exists>c. cache_snapshot w = Some c \<and> IsEmptySnap c)"
    and "\<And>sn. snapshot_slot (meta w) = Stored sn \<Longrightarrow> IsEmptySnap sn"
  shows "DiskStorage_FirstIndex w =
           Inr (if files (entries w) = [] then 0 else firstIndex (hd (files (entries w))))"
  using assms
  by (cases "snapshot_slot (meta w)")
     (auto simp: DiskStorage_FirstIndex_def DiskStorage_Snapshot_def metaFile_Snapshot_def
        entryLog_FirstIndex_def hd_conv_nth IsEmptySnap_def)

text \<open>A save with a non-empty snapshot puts the store into the first case.\<close>

lemma FirstIndex_after_Save_snapshot:
  assumes "Save w h es (Some sn) = Inr w'" "\<not> IsEmptySnap sn"
  shows "DiskStorage_FirstIndex w' = Inr (Snapshot_Index sn + 1)"
proof -
  from assms obtain w1 b where
    s: "setSnapshot w1 [] (Some sn) = Inr (w', b) \<or>
        (\<exists>w2. setSnapshot w1 [] (Some sn) = Inr (w2, b) \<and> w' = w2\<lparr>db := batch_Flush (db w2) b\<rparr>)"
    by (auto simp: Save_def split: sum.splits prod.splits)
  then have "cache_snapshot w' = Some sn"
    using assms(2)
    by (auto simp: setSnapshot_def StoreSnapshot_def Let_def split: sum.splits if_splits)
  then show ?thesis
    using assms(2) by (simp add: DiskStorage_FirstIndex_def DiskStorage_Snapshot_def)
qed

text \<open>
  C7. The claim: the first index of the store is the snapshot's index plus one when a
  non-empty snapshot is stored, otherwise the first index of the earliest entry file when
  a file exists, and 0 when none exists. The code, in a directory opened for the first
  time, after one save of the entry of index 1 and no snapshot: the earliest file holds
  the entry of index 1 in slot 0, and \<open>getEntryFile\<close> on the same bytes gives the file
  the first index 1, but the \<open>entryFile\<close> that \<open>openEntryLog\<close> created still has
  \<open>firstIndex = 0\<close>, the field is never set, and \<open>FirstIndex\<close> returns 0. (The
  snapshot case and the case without a file are as claimed: the lemmas before this one.)
\<close>

theorem FirstIndex_stale_after_first_append:
  "case openEntryLog ''wal'' [] of
     Inl err \<Rightarrow> False
   | Inr l0 \<Rightarrow>
       (case Save (fresh_store l0) None [mk_entry 1 1] None of
          Inl err \<Rightarrow> False
        | Inr w \<Rightarrow>
            cache_snapshot w = None \<and> snapshot_slot (meta w) = ZeroLen
            \<and> length (files (entries w)) = 1
            \<and> entryFile_getEntry (current (entries w)) (files (entries w) ! 0) 0
                 = Inr \<lparr>Term = 1, Index = 1, DataOffset = 0, Type = 0\<rparr>
            \<and> (case getEntryFile ''wal/1.ent''
                       (mmap_bytes (current (entries w)) (mmap (files (entries w) ! 0))) of
                  Inl err \<Rightarrow> False
                | Inr ef \<Rightarrow> firstIndex ef = 1)
            \<and> firstIndex (files (entries w) ! 0) = 0
            \<and> DiskStorage_LastIndex w = Inr 1
            \<and> DiskStorage_FirstIndex w = Inr 0)"
proof -
  have b: "map (copy_into m 0 (entry_Bytes (Some e))) [0..<32] = entry_Bytes (Some e)" for m e
    using copy_into_slot [of m 0 "entry_Bytes (Some e)"] by (simp del: entry_Bytes.simps)
  have g: "getEntryFile p (copy_into m 0 (entry_Bytes (Some e)))
             = Inr \<lparr>firstIndex = Index e, path = p, mmap = FileMap (copy_into m 0 (entry_Bytes (Some e)))\<rparr>" for p m e
    by (rule getEntryFile_reads_slot0) (rule b)
  show ?thesis
    by (simp add: openEntryLog_def zeroOut_def NewMmapFile_def Buffer_First_def Buffer_ReadAt_def
      digit_char_def mk_entry_def fresh_store_def Save_def StoreHardState_def setSnapshot_def
      batch_Flush_def DiskStorage_FirstIndex_def DiskStorage_Snapshot_def metaFile_Snapshot_def
      IsEmptySnap_def DiskStorage_LastIndex_def entryLog_LastIndex_def entryLog_FirstIndex_def
      entryFile_getEntry_def slice_mmap_def slice_mem_def int64_def b g entryFromBytes_Bytes_plain
      del: entry_Bytes.simps upt_rec_numeral)
qed

section \<open>Discarding files\<close>

text \<open>
  C5. The claim: after a discard no file remains whose last index is below the snapshot
  index, except the tail. The code: \<open>DiscardFiles\<close> returns the log it was given, for
  every log and every snapshot index, and the worker that drains the queued ranges
  leaves the entry log and its list of files as they were. So a log of two files with
  first indices 1 and 30001 still has both after a discard at 30001 or at any later
  index.
\<close>

theorem DiscardFiles_deletes_nothing:
  "DiscardFiles l snapshotIndex = Inr l
   \<and> entries (processIndexRange w) = entries w
   \<and> files (entries (processIndexRange w)) = files (entries w)"
proof -
  have "\<And>rs w. entries (foldl processSingleRange w rs) = entries w"
  proof -
    fix rs w show "entries (foldl processSingleRange w rs) = entries w"
      by (induction rs arbitrary: w) (simp_all add: processSingleRange_def)
  qed
  then show ?thesis
    by (simp add: DiscardFiles_def processIndexRange_def)
qed

section \<open>File names\<close>

lemma zeroOut_files: "zeroOut l n = Inr l' \<Longrightarrow> files l' = files l \<and> dir l' = dir l \<and> entryIndex l' = entryIndex l \<and> lastIndex l' = lastIndex l"
  by (auto simp: zeroOut_def split: if_splits option.splits sum.splits)

lemma rotate_path:
  "rotate l fi = Inr l' \<Longrightarrow>
     files l' = map (keep_view (current l)) (files l) @
        [\<lparr>firstIndex = fi, path = filepath_Join (dir l) (Sprintf_d (unat fi)), mmap = NilMap\<rparr>]"
  unfolding rotate_def Let_def
  by (drule zeroOut_files) simp

lemma digit_char_not_t: "d < 10 \<Longrightarrow> digit_char d \<noteq> CHR ''t''"
proof -
  assume "d < 10"
  then have "d \<in> {0,1,2,3,4,5,6,7,8,9}" by auto
  then show ?thesis by (auto simp: digit_char_def)
qed

lemma Sprintf_d_last_digit: "Sprintf_d n \<noteq> [] \<and> last (Sprintf_d n) = digit_char (n mod 10)"
  by (subst Sprintf_d.simps, subst (2) Sprintf_d.simps) simp

lemma rotated_file_never_has_suffix:
  assumes "rotate l fi = Inr l'" "dir l \<noteq> []"
  shows "\<not> strings_HasSuffix (path (last (files l'))) ''.ent''"
proof -
  let ?n = "Sprintf_d (unat fi)"
  have p: "path (last (files l')) = dir l @ ''/'' @ ?n"
    using rotate_path [OF assms(1)] assms(2) Sprintf_d_last_digit [of "unat fi"]
    by (simp add: filepath_Join_def del: Sprintf_d.simps)
  have "last (dir l @ ''/'' @ ?n) = digit_char (unat fi mod 10)"
    using Sprintf_d_last_digit [of "unat fi"] by (simp del: Sprintf_d.simps)
  then have l: "last (path (last (files l'))) \<noteq> CHR ''t''"
    using p digit_char_not_t [of "unat fi mod 10"] by simp
  show ?thesis
  proof
    assume "strings_HasSuffix (path (last (files l'))) ''.ent''"
    then obtain pre where "path (last (files l')) = pre @ ''.ent''"
      unfolding strings_HasSuffix_def
      by (metis append_take_drop_id)
    then have "last (path (last (files l'))) = CHR ''t''" by simp
    with l show False by simp
  qed
qed

lemma openEntryLog_fails_on_existing_files:
  "found \<noteq> [] \<Longrightarrow> openEntryLog d found = Inl ErrParseUint"
  by (simp add: openEntryLog_def strings_Split_empty_sep_def strconv_ParseUint_10_32_def is_digit_def)

text \<open>
  C8. The claim: every entry file, also one created by rotation, is named by the decimal
  first index followed by \<open>.ent\<close>, and the open path recovers the first index from
  the name. The code at \<open>full_log\<close>: appending entry 30001 rotates, and the new file is
  named \<open>wal/30001\<close>, without the suffix (the directory scan keeps only names that end
  in \<open>.ent\<close>); and opening a directory in which the scan found \<open>wal/1.ent\<close> fails
  while parsing the file identifier. (The lemmas before this one: no rotated file has the
  suffix, and the open path fails whenever a file was found.)
\<close>

theorem rotate_names_file_without_suffix:
  "(case AddEntries full_log [mk_entry 7 30001] of
      Inl err \<Rightarrow> False
    | Inr l' \<Rightarrow>
        map path (files l') = [''1.ent'', ''wal/30001'']
        \<and> map firstIndex (files l') = [1, 30001]
        \<and> entryIndex l' = 1
        \<and> \<not> strings_HasSuffix (path (last (files l'))) ''.ent'')
   \<and> openEntryLog ''wal'' [\<lparr>firstIndex = 1, path = ''wal/1.ent'', mmap = FileMap (slots_image example_slots)\<rparr>]
       = Inl ErrParseUint"
  by (simp add: rotate_def zeroOut_def NewMmapFile_def Buffer_First_def Buffer_ReadAt_def
      full_log_def keep_view_def filepath_Join_def digit_char_def strings_HasSuffix_def mk_entry_def
      openEntryLog_def strings_Split_empty_sep_def strconv_ParseUint_10_32_def is_digit_def)

section \<open>Appending\<close>

lemma AddEntries_single_no_truncation:
  "entryIndex l < maxNumEntries \<Longrightarrow> AddEntries l [re] = Inr l' \<Longrightarrow>
     entryIndex l' = entryIndex l + 1 \<and> files l' = files l \<and> lastIndex l' = Entry_Index re"
  by (auto simp: Let_def split: option.splits sum.splits if_splits prod.splits)

text \<open>
  C1. The claim: appending an entry whose index is at most the last index first truncates
  the entries from that index on, so that the last index is the entry's and reading from
  the next index on returns the empty list. The code, from a freshly opened directory
  \<open>wal\<close>: after entries 1 to 5, appending an entry of index 3 writes a sixth slot
  (the next free slot goes from 5 to 6 and \<open>numEntries\<close> from 5 to 6, where a truncation
  would leave 3); only \<open>lastIndex\<close> becomes 3. Reading the entry log from index 4
  panics, as it does before that append, instead of returning the empty list. (The lemma before this one: an append
  without rotation always moves to the next slot and keeps every file.)
\<close>

theorem AddEntries_overwrite_does_not_truncate:
  "(case openEntryLog ''wal'' [] of
      Inl err \<Rightarrow> False
    | Inr l0 \<Rightarrow>
        (case AddEntries l0 [mk_entry 1 1, mk_entry 1 2, mk_entry 1 3, mk_entry 1 4, mk_entry 1 5] of
           Inl err \<Rightarrow> False
         | Inr l1 \<Rightarrow>
             entryIndex l1 = 5 \<and> lastIndex l1 = 5 \<and> numEntries l1 = 5
             \<and> (case AddEntries l1 [mk_entry 2 3] of
                   Inl err \<Rightarrow> False
                 | Inr l2 \<Rightarrow>
                     entryIndex l2 = 6 \<and> lastIndex l2 = 3 \<and> numEntries l2 = 6
                     \<and> entryLog_allEntries esize l2 4 10 100 = Inl PanicIndexOutOfRange)))"
  by (simp add: openEntryLog_def zeroOut_def NewMmapFile_def Buffer_First_def Buffer_ReadAt_def
      digit_char_def mk_entry_def numEntries_def entryLog_allEntries_def entryLog_FirstIndex_def
      sort_Search_def files_at_def)

section \<open>Hard state\<close>









section \<open>Entries at the store\<close>

lemma iterate_not_Compacted:
  "DiskStorage_iterate esize lo hi maxSize kvs sz lastIdx first es \<noteq> Inl ErrCompacted"
  by (induction kvs arbitrary: sz lastIdx first es) (auto simp: Let_def split: if_splits)

lemma Entries_Compacted_iff:
  "DiskStorage_Entries esize w lo hi maxSize = Inl ErrCompacted
     \<longleftrightarrow> lo < entryLog_FirstIndex (Some (entries w))"
  by (auto simp: DiskStorage_Entries_def DiskStorage_allEntries_def Let_def iterate_not_Compacted
      split: option.splits)

text \<open>
  C4. The claim: \<open>Entries\<close> answers Compacted exactly when \<open>lo\<close> is below the
  snapshot's index plus one, Unavailable exactly when \<open>hi - 1\<close> is above the last
  index, and otherwise delegates to the entry log. The code, from a freshly opened
  directory after one save of the entries 1 to 5 with a snapshot at index 5: the first
  index of the store is 6, yet \<open>Entries(5, 6)\<close> passes the bounds check and returns the
  database's record of index 5, and \<open>Entries(3, 4)\<close> passes it and fails with the
  database's key-not-found. (The lemma before this one: Compacted is returned exactly
  when \<open>lo\<close> is below the first index of the entry log.)
\<close>

theorem Entries_bounds_ignore_snapshot:
  "(case openEntryLog ''wal'' [] of
      Inl err \<Rightarrow> False
    | Inr l0 \<Rightarrow>
        (case Save (fresh_store l0) None
                [mk_entry 1 1, mk_entry 1 2, mk_entry 1 3, mk_entry 1 4, mk_entry 1 5]
                (Some snapshot_at_5) of
           Inl err \<Rightarrow> False
         | Inr w \<Rightarrow>
             DiskStorage_Snapshot w = Inr snapshot_at_5
             \<and> DiskStorage_FirstIndex w = Inr 6
             \<and> DiskStorage_LastIndex w = Inr 5
             \<and> DiskStorage_Entries esize w 5 6 100 = Inr [mk_entry 1 5]
             \<and> DiskStorage_Entries esize w 3 4 100 = Inl ErrKeyNotFound))"
  by (simp add: openEntryLog_def zeroOut_def NewMmapFile_def Buffer_First_def Buffer_ReadAt_def
      digit_char_def mk_entry_def fresh_store_def snapshot_at_5_def Save_def StoreHardState_def
      setSnapshot_def StoreSnapshot_def IsEmptySnap_def batch_Flush_def
      DiskStorage_Snapshot_def DiskStorage_FirstIndex_def DiskStorage_LastIndex_def
      entryLog_LastIndex_def DiskStorage_Entries_def entryLog_FirstIndex_def
      DiskStorage_allEntries_def)

section \<open>Entries of the entry log\<close>

lemma example_slot0:
  "entryFile_getEntry (current example_log) \<lparr>firstIndex = 1, path = ''1.ent'', mmap = CurrentMap\<rparr> 0
     = Inr \<lparr>Term = 7, Index = 1, DataOffset = 0, Type = 0\<rparr>"
  using example_getEntry [of 0] by (simp add: example_log_def example_slots_def)

text \<open>
  C3. The claim: for a stored range with at least one entry, \<open>entries\<close> returns a
  non-empty prefix of it, the size cutoff applying only after the first entry. The code
  of the entry log at \<open>example_log\<close>, which holds the entries 1 to 3: when the first
  entry is larger than \<open>maxSize\<close>, \<open>allEntries(1, 4, maxSize)\<close> returns the empty
  list, because its loop tests \<open>sz > maxSize\<close> before it appends, for the first entry
  as for the others.
\<close>

theorem allEntries_drops_first_entry:
  assumes "maxSize < esize \<lparr>Entry_Term = 7, Entry_Index = 1, Entry_Type = 0, Entry_Data = []\<rparr>"
  shows "entryLog_allEntries esize example_log 1 4 maxSize = Inr []"
proof -
  have s: "sort_Search 1 (\<lambda>i. (1::u64) \<le> firstIndex ([\<lparr>firstIndex = 1, path = ''1.ent'', mmap = CurrentMap\<rparr>] ! nat i)) = 0"
    by (simp add: sort_Search_def)
  have r: "read_data (current example_log) \<lparr>firstIndex = 1, path = ''1.ent'', mmap = CurrentMap\<rparr>
             \<lparr>Term = 7, Index = 1, DataOffset = 0, Type = 0\<rparr> 0 0 = Inr []"
    by (simp add: read_data_def slice_mmap_def slice_mem_def example_log_def)
  have m: "\<not> maxSize < 0"
    by simp
  have loop: "allEntries_loop esize example_log 4 maxSize 0 1 0 [] = Inr []"
    apply (subst allEntries_loop.simps)
    using example_slot0 r assms
    apply (simp add: example_log_def files_at_def int64_def Buffer_Len_def del: allEntries_loop.simps)
    done
  show ?thesis
    unfolding entryLog_allEntries_def
    using s loop
    by (simp add: example_log_def entryLog_FirstIndex_def files_at_def del: allEntries_loop.simps)
qed

text \<open>
  With \<open>maxSize = 0\<close> and an entry size of 6 bytes plus the payload (the smallest
  encoding of an entry has positive length).
\<close>

theorem allEntries_drops_first_entry_witness:
  "(0 :: u64) < (\<lambda>e. 6 + of_nat (length (Entry_Data e)))
        \<lparr>Entry_Term = 7, Entry_Index = 1, Entry_Type = 0, Entry_Data = []\<rparr>
   \<and> entryLog_allEntries (\<lambda>e. 6 + of_nat (length (Entry_Data e))) example_log 1 4 0 = Inr []"
proof -
  have h: "(0 :: u64) < (\<lambda>e. 6 + of_nat (length (Entry_Data e)))
        \<lparr>Entry_Term = 7, Entry_Index = 1, Entry_Type = 0, Entry_Data = []\<rparr>"
    by simp
  from allEntries_drops_first_entry [of 0 "\<lambda>e. 6 + of_nat (length (Entry_Data e))", OF h] h
  show ?thesis by simp
qed

text \<open>
  The same in the log the code itself builds: a directory opened for the first time and
  one entry of index 0 appended (the anchor entry a new store starts with). The entry is
  stored, its term is found, and \<open>allEntries(0, 1, maxSize)\<close> is empty when the
  entry is larger than \<open>maxSize\<close>.
\<close>

lemma allEntries_drops_first_entry_after_open:
  assumes "maxSize < esize (mk_entry 1 0)"
  shows "case openEntryLog ''wal'' [] of
      Inl err \<Rightarrow> False
    | Inr l0 \<Rightarrow>
        (case AddEntries l0 [mk_entry 1 0] of
           Inl err \<Rightarrow> False
         | Inr l \<Rightarrow> entryLog_FirstIndex (Some l) = 0 \<and> entryLog_LastIndex l = 0
               \<and> entryLog_Term l 0 = Inr 1
               \<and> entryLog_allEntries esize l 0 1 maxSize = Inr [])"
proof -
  have b: "map (copy_into m 0 (entry_Bytes (Some e))) [0..<32] = entry_Bytes (Some e)" for m e
    using copy_into_slot [of m 0 "entry_Bytes (Some e)"] by (simp del: entry_Bytes.simps)
  have m: "\<not> maxSize < 0" by simp
  show ?thesis
    using assms m
    apply (simp add: openEntryLog_def zeroOut_def NewMmapFile_def Buffer_First_def Buffer_ReadAt_def
      digit_char_def mk_entry_def entryLog_FirstIndex_def entryLog_LastIndex_def
      entryLog_Term_def entryLog_allEntries_def sort_Search_def files_at_def
      entryFile_getEntry_def slice_mmap_def slice_mem_def int64_def b entryFromBytes_Bytes_plain
      read_data_def Buffer_Len_def
      del: entry_Bytes.simps upt_rec_numeral)
    done
qed

text \<open>
  The reader over the database, \<open>(w *DiskStorage) allEntries\<close>, tests
  \<open>size > maxSize && !first\<close>: it keeps the first entry in range whatever its size.
\<close>

lemma iterate_extends_collected:
  "DiskStorage_iterate esize lo hi maxSize kvs sz lastIdx first es = Inr r \<Longrightarrow> \<exists>t. r = es @ t"
proof (induction kvs arbitrary: sz lastIdx first es)
  case Nil
  then show ?case by simp
next
  case (Cons kv kvs)
  obtain k e where kv: "kv = (k, e)" by (cases kv)
  show ?case
  proof (cases "r = es")
    case True
    then show ?thesis by simp
  next
    case False
    with Cons.prems kv
    have "DiskStorage_iterate esize lo hi maxSize kvs (sz + esize e) (Entry_Index e) False (es @ [e]) = Inr r"
      by (auto simp: Let_def split: if_splits)
    from Cons.IH [OF this] obtain t where "r = (es @ [e]) @ t" ..
    then show ?thesis by simp
  qed
qed

lemma DiskStorage_allEntries_keeps_first_entry:
  assumes "DiskStorage_iterate esize lo hi maxSize ((k, e) # kvs) 0 0 True [] = Inr r" "k < hi"
  shows "r \<noteq> [] \<and> hd r = e"
proof -
  from assms
  have "DiskStorage_iterate esize lo hi maxSize kvs (0 + esize e) (Entry_Index e) False ([] @ [e]) = Inr r"
    by (auto simp: Let_def split: if_splits)
  from iterate_extends_collected [OF this] show ?thesis by auto
qed

end
